theory Spec2Isabelle
  imports
    Complex_Main
    "HOL-Library.Char_ord"
    "HOL-Library.List_Lexorder"
    "HOL-Library.Product_Lexorder"
    "HOL-Library.Multiset"
begin

section \<open>Hospital pharmacy inventory pipeline: shared vocabulary\<close>

text \<open>
  The three scripts are pandas programs. Their tables are modelled as lists of records, one
  record per row, in row order. Quantities are exact real numbers: the rounding, the
  infinities and the NaN results of IEEE arithmetic are not part of this model, and a
  missing cell (pandas NaN/NaT) is the value \<open>None\<close> of an option type. Item codes are text,
  compared as Python compares \<open>str\<close> (lexicographically by character code).

  The model starts at the loaded table. What Step 1 of each script does before it looks at
  a row (the file exists, the sheet is found, the required columns are present) concerns the
  file system and the column names, which the record types fix.
\<close>

datatype error =
    ValueError string
  | AssertionError string
  | ZeroDivisionError

text \<open>A raw quantity cell: empty, a number (or text that \<open>pd.to_numeric\<close> reads as that
  number), or text that \<open>pd.to_numeric(errors="coerce")\<close> turns into NaN.\<close>

datatype qty_cell = QtyMissing | QtyNumber real | QtyText string

fun notna_cell :: "qty_cell \<Rightarrow> bool" where
  "notna_cell QtyMissing = False"
| "notna_cell (QtyNumber q) = True"
| "notna_cell (QtyText s) = True"

fun to_numeric :: "qty_cell \<Rightarrow> real option" where
  "to_numeric QtyMissing = None"
| "to_numeric (QtyNumber q) = Some q"
| "to_numeric (QtyText s) = None"

definition fillna0 :: "real option \<Rightarrow> real" where
  "fillna0 v = (case v of None \<Rightarrow> 0 | Some q \<Rightarrow> q)"

text \<open>\<open>str.strip()\<close> removes leading and trailing whitespace; on ASCII text the whitespace
  characters of Python are 0x09..0x0D, 0x1C..0x1F and the space.\<close>

definition is_space :: "char \<Rightarrow> bool" where
  "is_space c = (c \<in> set [CHR 0x09, CHR 0x0A, CHR 0x0B, CHR 0x0C, CHR 0x0D,
                           CHR 0x1C, CHR 0x1D, CHR 0x1E, CHR 0x1F, CHR 0x20])"

definition strip :: "string \<Rightarrow> string" where
  "strip s = rev (dropWhile is_space (rev (dropWhile is_space s)))"

text \<open>\<open>Series.astype(str)\<close> on a text column: a missing cell becomes the text \<open>nan\<close>.\<close>

definition astype_str :: "string option \<Rightarrow> string" where
  "astype_str d = (case d of None \<Rightarrow> ''nan'' | Some s \<Rightarrow> s)"

subsection \<open>\<open>groupby(key)[value].sum().reset_index()\<close>\<close>

text \<open>
  pandas leaves every row whose group key is missing out of the groups (\<open>dropna=True\<close> is the
  default of \<open>groupby\<close>), skips missing values inside a sum, and returns the groups ordered by
  key. \<open>add_qty\<close> adds one row's value to the running total of its key; \<open>group_rows\<close> is the
  pass over the rows.
\<close>

fun add_qty :: "string \<Rightarrow> real \<Rightarrow> (string \<times> real) list \<Rightarrow> (string \<times> real) list" where
  "add_qty k q [] = [(k, q)]"
| "add_qty k q ((k', s) # acc) =
     (if k = k' then (k', s + q) # acc else (k', s) # add_qty k q acc)"

fun group_rows ::
  "(string option \<times> real option) list \<Rightarrow> (string \<times> real) list \<Rightarrow> (string \<times> real) list" where
  "group_rows [] acc = acc"
| "group_rows ((None, v) # rs) acc = group_rows rs acc"
| "group_rows ((Some k, v) # rs) acc = group_rows rs (add_qty k (fillna0 v) acc)"

definition groupby_sum :: "(string option \<times> real option) list \<Rightarrow> (string \<times> real) list" where
  "groupby_sum rows = sort_key fst (group_rows rows [])"

text \<open>\<open>sort_values(key).reset_index(drop=True)\<close> on a two-column table.\<close>

definition sort_values :: "(string \<times> real) list \<Rightarrow> (string \<times> real) list" where
  "sort_values tbl = sort_key fst tbl"

definition total :: "(string \<times> real) list \<Rightarrow> real" where
  "total tbl = sum_list (map snd tbl)"

section \<open>Script 1: Global Stock Lookup\<close>

text \<open>A row of \<open>Material_Global_Stock_Report.CSV\<close>; \<open>'q\<close> is the type of the \<open>Qty\<close> column,
  raw cells on loading and \<open>real option\<close> after \<open>pd.to_numeric\<close>.\<close>

record 'q stock_row =
  ItemCode :: "string option"
  Description :: "string option"
  Qty :: 'q

definition qty_to_numeric :: "qty_cell stock_row \<Rightarrow> real option stock_row" where
  "qty_to_numeric r =
     \<lparr>ItemCode = ItemCode r, Description = Description r, Qty = to_numeric (Qty r)\<rparr>"

text \<open>Step 2 (Clean): the three filters, in the order of the source.\<close>

definition gs_clean :: "qty_cell stock_row list \<Rightarrow> real option stock_row list" where
  "gs_clean df =
     (let df1 = filter (\<lambda>r. Description r \<noteq> None \<and> strip (astype_str (Description r)) \<noteq> '''') df;
          df2 = filter (\<lambda>r. notna_cell (Qty r)) df1;
          df3 = filter (\<lambda>r. Qty r \<noteq> None) (map qty_to_numeric df2)
      in df3)"

text \<open>Step 3 (Aggregate).\<close>

definition gs_aggregate :: "real option stock_row list \<Rightarrow> (string \<times> real) list" where
  "gs_aggregate df = sort_values (groupby_sum (map (\<lambda>r. (ItemCode r, Qty r)) df))"

text \<open>Step 4 (Validate): the four assertions, in order. The totals are real numbers, so the
  last one (\<open>notna().all()\<close>) has no failing branch here.\<close>

definition gs_validate :: "(string \<times> real) list \<Rightarrow> error + (string \<times> real) list" where
  "gs_validate result =
     (if ''Intransit Store'' \<in> set (map fst result)
        then Inl (AssertionError ''Intransit Store should be removed'')
      else if \<not> distinct (map fst result)
        then Inl (AssertionError ''Duplicate item codes found'')
      else if \<not> list_all (\<lambda>q. 0 \<le> q) (map snd result)
        then Inl (AssertionError ''Negative quantities found'')
      else Inr result)"

definition create_global_stock_lookup ::
  "qty_cell stock_row list \<Rightarrow> error + (string \<times> real) list" where
  "create_global_stock_lookup df =
     (if length df = 0 then Inl (ValueError ''Input file is empty'')
      else let cleaned = gs_clean df
           in if length cleaned = 0
                then Inl (ValueError ''All rows were filtered out - check input data'')
              else gs_validate (gs_aggregate cleaned))"

section \<open>Script 2: Main Store Stock Lookup\<close>

definition MAIN_STORE :: string where
  "MAIN_STORE = ''Main Medical Store (MMS)-SEPL''"








section \<open>Script 4: Inventory Calculation\<close>

text \<open>
  \<open>InventoryCalculator\<close> keeps one table, \<open>self.data\<close>, and every method replaces it by a
  table with more columns. Each method is a function from the table before to the table
  after; the record types follow the columns the table has at each stage.
\<close>

record master_item =
  Item_Code :: "string option"
  Current_SKU :: bool
  ADC :: real
  Min_Stock_Level :: real
  Max_Stock_Level :: real
  Pack_size :: real

record global_merged = master_item +
  Global_stock :: real

record main_merged = global_merged +
  Main_Store_Stock :: real

record po_merged = main_merged +
  Pending_PO :: real

record inventory_row = po_merged +
  Net_Stock :: real
  Global_Stock_Days :: real
  Main_Store_Stock_Days :: real
  Reorder_Needed :: bool
  Order_Qty :: real

text \<open>Step 1: keep the rows whose \<open>Current SKU (TRUE/FALSE)\<close> cell equals \<open>True\<close>.\<close>

definition load_master :: "master_item list \<Rightarrow> master_item list" where
  "load_master df = filter (\<lambda>r. Current_SKU r = True) df"

text \<open>
  \<open>left.merge(right, how="left")\<close> on one key column, the right table having that key and one
  value column: every left row is kept, in order; it appears once per right row with an equal
  key (pandas matches a missing key with a missing key), and once with a missing value when
  no right row matches. \<open>join l v\<close> builds the merged row.
\<close>

definition merge_left ::
  "('l \<Rightarrow> string option) \<Rightarrow> ('l \<Rightarrow> real option \<Rightarrow> 'r) \<Rightarrow> 'l list \<Rightarrow>
     (string option \<times> real option) list \<Rightarrow> 'r list" where
  "merge_left key_of join left right =
     concat (map (\<lambda>l. case filter (\<lambda>m. fst m = key_of l) right of
                         [] \<Rightarrow> [join l None]
                       | m # ms \<Rightarrow> map (\<lambda>m. join l (snd m)) (m # ms)) left)"

text \<open>Step 2: the lookup sheet has the columns \<open>Item Code\<close> and \<open>Total Global Stock\<close>.\<close>

definition merge_global_stock ::
  "master_item list \<Rightarrow> (string option \<times> real option) list \<Rightarrow> global_merged list" where
  "merge_global_stock data gs =
     merge_left Item_Code
       (\<lambda>l v. master_item.extend l (global_merged.fields (fillna0 v))) data gs"

text \<open>Step 3: the lookup sheet has the columns \<open>Item\nCode\<close> and \<open>Sum of Qty.\<close>.\<close>

definition merge_main_store_stock ::
  "global_merged list \<Rightarrow> (string option \<times> real option) list \<Rightarrow> main_merged list" where
  "merge_main_store_stock data ms =
     merge_left Item_Code
       (\<lambda>l v. global_merged.extend l (main_merged.fields (fillna0 v))) data ms"

text \<open>
  Step 4. A PO line; \<open>'d\<close> is the type of the \<open>POCreated Date\<close> column. A raw date cell is
  empty, a date (or text that \<open>pd.to_datetime\<close> reads as that date), or text that
  \<open>pd.to_datetime(errors="coerce")\<close> turns into NaT. Points in time are integers, counting
  microseconds; the run time \<open>now\<close> (\<open>datetime.now()\<close> in the source) is a parameter.
\<close>

datatype date_cell = DateMissing | DateValue int | DateText string

fun to_datetime :: "date_cell \<Rightarrow> int option" where
  "to_datetime DateMissing = None"
| "to_datetime (DateValue t) = Some t"
| "to_datetime (DateText s) = None"

record 'd pending_po_record =
  PO_Item_Code :: "string option"
  PO_Store_Name :: string
  POCreated_Date :: 'd
  Pen_Qty :: "real option"

definition po_to_datetime :: "date_cell pending_po_record \<Rightarrow> int option pending_po_record" where
  "po_to_datetime e =
     \<lparr>PO_Item_Code = PO_Item_Code e, PO_Store_Name = PO_Store_Name e,
      POCreated_Date = to_datetime (POCreated_Date e), Pen_Qty = Pen_Qty e\<rparr>"

definition timedelta_days :: "int \<Rightarrow> int" where
  "timedelta_days d = d * 86400000000"

text \<open>A comparison with NaT is false.\<close>

definition date_ge :: "int option \<Rightarrow> int \<Rightarrow> bool" where
  "date_ge d t = (case d of None \<Rightarrow> False | Some t' \<Rightarrow> t \<le> t')"

definition po_filter ::
  "int \<Rightarrow> date_cell pending_po_record list \<Rightarrow> int option pending_po_record list" where
  "po_filter now expected =
     (let expected1 = map po_to_datetime expected;
          three_months_ago = now - timedelta_days 90;
          expected2 = filter (\<lambda>e. PO_Store_Name e = ''Main Medical Store (MMS)-SEPL'') expected1;
          expected3 = filter (\<lambda>e. date_ge (POCreated_Date e) three_months_ago) expected2
      in expected3)"

definition process_pending_po ::
  "int \<Rightarrow> main_merged list \<Rightarrow> date_cell pending_po_record list \<Rightarrow> po_merged list" where
  "process_pending_po now data expected =
     (let pending = groupby_sum (map (\<lambda>e. (PO_Item_Code e, Pen_Qty e)) (po_filter now expected))
      in merge_left Item_Code
           (\<lambda>l v. main_merged.extend l (po_merged.fields (fillna0 v))) data
           (map (\<lambda>(k, q). (Some k, Some q)) pending))"

text \<open>
  Steps 5-9. Python's \<open>/\<close> raises \<open>ZeroDivisionError\<close> on a zero divisor, and \<open>round(x, 0)\<close>
  rounds to the nearest integer, a tie going to the even one.
\<close>

definition py_div :: "real \<Rightarrow> real \<Rightarrow> error + real" where
  "py_div a b = (if b = 0 then Inl ZeroDivisionError else Inr (a / b))"

definition py_round :: "real \<Rightarrow> real" where
  "py_round x =
     (let f = \<lfloor>x\<rfloor>; d = x - of_int f
      in if d < 1 / 2 then of_int f
         else if 1 / 2 < d then of_int (f + 1)
         else if even f then of_int f else of_int (f + 1))"

definition stock_days :: "real \<Rightarrow> real \<Rightarrow> error + real" where
  "stock_days stock adc =
     (if 0 < adc
      then (case py_div stock adc of Inl e \<Rightarrow> Inl e | Inr d \<Rightarrow> Inr (py_round d))
      else Inr 0)"

text \<open>\<open>calc_order_qty(row)\<close> reads five cells of the row: \<open>Current SKU\<close>, \<open>Reorder Needed?\<close>,
  \<open>Max Stock Level\<close>, \<open>Net Stock\<close> and \<open>Pack size\<close>. The source fills the five new columns
  one after the other over the whole table; \<open>metrics_row\<close> computes them for one row, in the
  same order, and \<open>calculate_metrics\<close> goes through the rows.\<close>

definition calc_order_qty :: "bool \<Rightarrow> bool \<Rightarrow> real \<Rightarrow> real \<Rightarrow> real \<Rightarrow> error + real" where
  "calc_order_qty current_sku reorder max_level net pack_size =
     (if \<not> current_sku \<or> \<not> reorder then Inr 0
      else let shortage = max_level - net; pack = pack_size
           in if pack \<le> 0 \<or> shortage \<le> 0 then Inr 0
              else (case py_div shortage pack of
                      Inl e \<Rightarrow> Inl e
                    | Inr d \<Rightarrow> Inr (max 0 (of_int \<lceil>d\<rceil> * pack))))"

definition metrics_row :: "po_merged \<Rightarrow> error + inventory_row" where
  "metrics_row r =
     (let net = Global_stock r + Pending_PO r
      in case stock_days (Global_stock r) (ADC r) of
           Inl e \<Rightarrow> Inl e
         | Inr gsd \<Rightarrow>
            (case stock_days (Main_Store_Stock r) (ADC r) of
               Inl e \<Rightarrow> Inl e
             | Inr msd \<Rightarrow>
                (let reorder = (Current_SKU r = True \<and> net < Min_Stock_Level r)
                 in case calc_order_qty (Current_SKU r) reorder (Max_Stock_Level r) net (Pack_size r) of
                      Inl e \<Rightarrow> Inl e
                    | Inr qty \<Rightarrow>
                        Inr (po_merged.extend r (inventory_row.fields net gsd msd reorder qty)))))"

fun calculate_metrics :: "po_merged list \<Rightarrow> error + inventory_row list" where
  "calculate_metrics [] = Inr []"
| "calculate_metrics (r # rs) =
     (case metrics_row r of
        Inl e \<Rightarrow> Inl e
      | Inr r' \<Rightarrow> (case calculate_metrics rs of Inl e \<Rightarrow> Inl e | Inr rs' \<Rightarrow> Inr (r' # rs')))"

text \<open>Validate: the column count only logs a warning; the two assertions raise.\<close>

definition validate :: "inventory_row list \<Rightarrow> error + unit" where
  "validate df =
     (if \<not> list_all (\<lambda>r. Net_Stock r = Global_stock r + Pending_PO r) df
        then Inl (AssertionError ''Net Stock calculation error'')
      else if \<not> list_all (\<lambda>r. 0 \<le> Order_Qty r) df
        then Inl (AssertionError ''Negative order quantities found'')
      else Inr ())"

text \<open>Export writes the rows sorted by \<open>Reorder Needed?\<close> and \<open>Order Qty\<close>, both descending.\<close>

definition export_rows :: "inventory_row list \<Rightarrow> inventory_row list" where
  "export_rows data = sort_key (\<lambda>r. (\<not> Reorder_Needed r, - Order_Qty r)) data"

text \<open>The table that reaches \<open>calculate_metrics\<close>, and the full run, which returns
  \<open>self.data\<close>.\<close>

definition merged_table ::
  "int \<Rightarrow> master_item list \<Rightarrow> (string option \<times> real option) list \<Rightarrow>
     (string option \<times> real option) list \<Rightarrow> date_cell pending_po_record list \<Rightarrow> po_merged list" where
  "merged_table now master gs ms expected =
     process_pending_po now
       (merge_main_store_stock (merge_global_stock (load_master master) gs) ms) expected"

definition run ::
  "int \<Rightarrow> master_item list \<Rightarrow> (string option \<times> real option) list \<Rightarrow>
     (string option \<times> real option) list \<Rightarrow> date_cell pending_po_record list \<Rightarrow>
     error + inventory_row list" where
  "run now master gs ms expected =
     (case calculate_metrics (merged_table now master gs ms expected) of
        Inl e \<Rightarrow> Inl e
      | Inr data \<Rightarrow> (case validate data of Inl e \<Rightarrow> Inl e | Inr u \<Rightarrow> Inr data))"

section \<open>The rules as the specification words them\<close>

text \<open>The order quantity rule of the specification (section 4.3, COMPUTE_METRICS), read on
  the five cells it names.\<close>

definition order_formula :: "bool \<Rightarrow> bool \<Rightarrow> real \<Rightarrow> real \<Rightarrow> real \<Rightarrow> real" where
  "order_formula active reorder max_level net pack =
     (if \<not> active \<or> \<not> reorder then 0
      else if pack \<le> 0 \<or> max_level - net \<le> 0 then 0
      else of_int \<lceil>(max_level - net) / pack\<rceil> * pack)"

text \<open>The sum of the values of the rows filed under one key.\<close>

definition key_sum :: "(string option \<times> real option) list \<Rightarrow> string \<Rightarrow> real" where
  "key_sum rows k = sum_list (map (\<lambda>r. fillna0 (snd r)) (filter (\<lambda>r. fst r = Some k) rows))"





text \<open>Section 4.3 of the specification, MERGE_PENDING_PO: a PO line counts when it is of the
  designated store and its creation date parses and is not older than 90 days at run time;
  the pending quantity of an item is the sum over the lines that count and bear its code (0
  when there is none).\<close>

definition po_selected :: "int \<Rightarrow> date_cell pending_po_record \<Rightarrow> bool" where
  "po_selected now e =
     (PO_Store_Name e = MAIN_STORE \<and>
      (case POCreated_Date e of DateValue t \<Rightarrow> now - timedelta_days 90 \<le> t | _ \<Rightarrow> False))"

definition spec_pending_po ::
  "int \<Rightarrow> date_cell pending_po_record list \<Rightarrow> string option \<Rightarrow> real" where
  "spec_pending_po now expected code =
     (case code of
        None \<Rightarrow> 0
      | Some k \<Rightarrow> sum_list (map (\<lambda>e. fillna0 (Pen_Qty e))
                    (filter (\<lambda>e. po_selected now e \<and> PO_Item_Code e = Some k) expected)))"

section \<open>Metrics: auxiliary facts\<close>

lemma stock_days_eq: "stock_days s a = Inr (if 0 < a then py_round (s / a) else 0)"
  by (simp add: stock_days_def py_div_def)

lemma whole_packs_nonneg:
  fixes s p :: real
  assumes "0 < p" "0 < s"
  shows "0 \<le> of_int \<lceil>s / p\<rceil> * p"
proof -
  have "0 < s / p" using assms by simp
  then have "0 < \<lceil>s / p\<rceil>" by simp
  then have "(0::real) \<le> of_int \<lceil>s / p\<rceil>" by simp
  then show ?thesis using assms(1) by (intro mult_nonneg_nonneg) simp_all
qed

lemma calc_order_qty_eq:
  "calc_order_qty c re mx net p =
     Inr (if \<not> c \<or> \<not> re then 0
          else if p \<le> 0 \<or> mx - net \<le> 0 then 0
          else of_int \<lceil>(mx - net) / p\<rceil> * p)"
proof (cases "\<not> c \<or> \<not> re \<or> p \<le> 0 \<or> mx - net \<le> 0")
  case True
  then show ?thesis by (auto simp: calc_order_qty_def)
next
  case False
  then have "0 < p" "0 < mx - net" by auto
  from whole_packs_nonneg [OF this] False show ?thesis
    by (simp add: calc_order_qty_def py_div_def max_def)
qed


lemma metrics_row_eq:
  "metrics_row r =
     Inr (po_merged.extend r (inventory_row.fields
       (Global_stock r + Pending_PO r)
       (if 0 < ADC r then py_round (Global_stock r / ADC r) else 0)
       (if 0 < ADC r then py_round (Main_Store_Stock r / ADC r) else 0)
       (Current_SKU r \<and> Global_stock r + Pending_PO r < Min_Stock_Level r)
       (order_formula (Current_SKU r) (Current_SKU r \<and> Global_stock r + Pending_PO r < Min_Stock_Level r)
          (Max_Stock_Level r) (Global_stock r + Pending_PO r) (Pack_size r))))"
  unfolding metrics_row_def Let_def stock_days_eq calc_order_qty_eq order_formula_def [symmetric]
  by (simp only: sum.case simp_thms)


lemma extend_fields:
  "Item_Code (po_merged.extend r (inventory_row.fields n g m re q)) = Item_Code r"
  "Current_SKU (po_merged.extend r (inventory_row.fields n g m re q)) = Current_SKU r"
  "ADC (po_merged.extend r (inventory_row.fields n g m re q)) = ADC r"
  "Min_Stock_Level (po_merged.extend r (inventory_row.fields n g m re q)) = Min_Stock_Level r"
  "Max_Stock_Level (po_merged.extend r (inventory_row.fields n g m re q)) = Max_Stock_Level r"
  "Pack_size (po_merged.extend r (inventory_row.fields n g m re q)) = Pack_size r"
  "Global_stock (po_merged.extend r (inventory_row.fields n g m re q)) = Global_stock r"
  "Main_Store_Stock (po_merged.extend r (inventory_row.fields n g m re q)) = Main_Store_Stock r"
  "Pending_PO (po_merged.extend r (inventory_row.fields n g m re q)) = Pending_PO r"
  "Net_Stock (po_merged.extend r (inventory_row.fields n g m re q)) = n"
  "Global_Stock_Days (po_merged.extend r (inventory_row.fields n g m re q)) = g"
  "Main_Store_Stock_Days (po_merged.extend r (inventory_row.fields n g m re q)) = m"
  "Reorder_Needed (po_merged.extend r (inventory_row.fields n g m re q)) = re"
  "Order_Qty (po_merged.extend r (inventory_row.fields n g m re q)) = q"
  by (simp_all add: po_merged.defs inventory_row.defs)



lemma metrics_row_fields:
  assumes "metrics_row r = Inr r'"
  shows "Item_Code r' = Item_Code r" "Current_SKU r' = Current_SKU r" "ADC r' = ADC r"
    "Min_Stock_Level r' = Min_Stock_Level r" "Max_Stock_Level r' = Max_Stock_Level r"
    "Pack_size r' = Pack_size r" "Global_stock r' = Global_stock r"
    "Main_Store_Stock r' = Main_Store_Stock r" "Pending_PO r' = Pending_PO r"
    "Net_Stock r' = Global_stock r + Pending_PO r"
    "Global_Stock_Days r' = (if 0 < ADC r then py_round (Global_stock r / ADC r) else 0)"
    "Main_Store_Stock_Days r' = (if 0 < ADC r then py_round (Main_Store_Stock r / ADC r) else 0)"
    "Reorder_Needed r' = (Current_SKU r \<and> Global_stock r + Pending_PO r < Min_Stock_Level r)"
    "Order_Qty r' = order_formula (Current_SKU r) (Current_SKU r \<and> Global_stock r + Pending_PO r < Min_Stock_Level r)
          (Max_Stock_Level r) (Global_stock r + Pending_PO r) (Pack_size r)"
proof -
  note r' = assms [unfolded metrics_row_eq sum.inject, symmetric]
  show "Item_Code r' = Item_Code r" by (subst r') (rule extend_fields)
  show "Current_SKU r' = Current_SKU r" by (subst r') (rule extend_fields)
  show "ADC r' = ADC r" by (subst r') (rule extend_fields)
  show "Min_Stock_Level r' = Min_Stock_Level r" by (subst r') (rule extend_fields)
  show "Max_Stock_Level r' = Max_Stock_Level r" by (subst r') (rule extend_fields)
  show "Pack_size r' = Pack_size r" by (subst r') (rule extend_fields)
  show "Global_stock r' = Global_stock r" by (subst r') (rule extend_fields)
  show "Main_Store_Stock r' = Main_Store_Stock r" by (subst r') (rule extend_fields)
  show "Pending_PO r' = Pending_PO r" by (subst r') (rule extend_fields)
  show "Net_Stock r' = Global_stock r + Pending_PO r" by (subst r') (rule extend_fields)
  show "Global_Stock_Days r' = (if 0 < ADC r then py_round (Global_stock r / ADC r) else 0)"
    by (subst r') (rule extend_fields)
  show "Main_Store_Stock_Days r' = (if 0 < ADC r then py_round (Main_Store_Stock r / ADC r) else 0)"
    by (subst r') (rule extend_fields)
  show "Reorder_Needed r' = (Current_SKU r \<and> Global_stock r + Pending_PO r < Min_Stock_Level r)"
    by (subst r') (rule extend_fields)
  show "Order_Qty r' = order_formula (Current_SKU r) (Current_SKU r \<and> Global_stock r + Pending_PO r < Min_Stock_Level r)
          (Max_Stock_Level r) (Global_stock r + Pending_PO r) (Pack_size r)"
    by (subst r') (rule extend_fields)
qed


lemma calculate_metrics_rows:
  "\<exists>out. calculate_metrics data = Inr out \<and> list_all2 (\<lambda>r r'. metrics_row r = Inr r') data out"
proof (induction data)
  case Nil
  show ?case by simp
next
  case (Cons r rs)
  then obtain rs' where rs': "calculate_metrics rs = Inr rs'"
    "list_all2 (\<lambda>r r'. metrics_row r = Inr r') rs rs'" by blast
  obtain r' where r': "metrics_row r = Inr r'" using metrics_row_eq by blast
  have "calculate_metrics (r # rs) = Inr (r' # rs')"
    by (simp only: calculate_metrics.simps r' rs' sum.case)
  moreover have "list_all2 (\<lambda>r r'. metrics_row r = Inr r') (r # rs) (r' # rs')"
    using r' rs'(2) by (simp only: list_all2_Cons simp_thms)
  ultimately show ?case by blast
qed

lemma calculate_metrics_source:
  assumes "calculate_metrics data = Inr out" "r' \<in> set out"
  shows "\<exists>r \<in> set data. metrics_row r = Inr r'"
proof -
  obtain out' where "calculate_metrics data = Inr out'"
    and l: "list_all2 (\<lambda>r r'. metrics_row r = Inr r') data out'"
    using calculate_metrics_rows by blast
  with assms(1) have "out' = out" by (simp only: sum.inject)
  with l have l': "list_all2 (\<lambda>r r'. metrics_row r = Inr r') data out" by (simp only:)
  from assms(2) obtain i where i: "i < length out" "out ! i = r'"
    by (auto simp only: in_set_conv_nth)
  from l' i have "i < length data" "metrics_row (data ! i) = Inr r'"
    by (auto simp only: list_all2_conv_all_nth)
  then show ?thesis by (meson nth_mem)
qed



lemma order_formula_nonneg: "0 \<le> order_formula c re mx net p"
proof (cases "\<not> c \<or> \<not> re \<or> p \<le> 0 \<or> mx - net \<le> 0")
  case True
  then show ?thesis by (auto simp: order_formula_def)
next
  case False
  then have "0 < p" "0 < mx - net" by auto
  from whole_packs_nonneg [OF this] False show ?thesis
    by (simp add: order_formula_def)
qed

lemma calculate_metrics_single:
  "\<exists>r'. calculate_metrics [r] = Inr [r'] \<and> metrics_row r = Inr r'"
proof -
  obtain r' where r': "metrics_row r = Inr r'" using metrics_row_eq by blast
  have "calculate_metrics [r] = Inr [r']"
    by (simp only: calculate_metrics.simps r' sum.case)
  with r' show ?thesis by blast
qed

lemma validate_metrics:
  assumes "calculate_metrics data = Inr out"
  shows "validate out = Inr ()"
proof -
  have n: "Net_Stock r = Global_stock r + Pending_PO r" and q: "0 \<le> Order_Qty r"
    if "r \<in> set out" for r
  proof -
    from calculate_metrics_source [OF assms that] obtain r0 where r0: "metrics_row r0 = Inr r"
      by blast
    show "Net_Stock r = Global_stock r + Pending_PO r"
      unfolding metrics_row_fields [OF r0] by (rule refl)
    show "0 \<le> Order_Qty r"
      unfolding metrics_row_fields [OF r0] by (rule order_formula_nonneg)
  qed
  have "list_all (\<lambda>r. Net_Stock r = Global_stock r + Pending_PO r) out"
    using n by (simp only: list_all_iff) blast
  moreover have "list_all (\<lambda>r. 0 \<le> Order_Qty r) out"
    using q by (simp only: list_all_iff) blast
  ultimately show ?thesis by (simp only: validate_def simp_thms if_False if_True)
qed

section \<open>Claims about the inventory calculation\<close>



text \<open>
  Claim C3. After \<open>calculate_metrics\<close>, the net stock of every row is its global stock plus
  its pending PO quantity; the main-store stock has no part in it (changing it leaves the net
  stock as it was); and \<open>validate\<close>, which recomputes the sum on every row, passes.
\<close>

theorem net_stock_identity:
  "(\<forall>data out. calculate_metrics data = Inr out \<longrightarrow>
      (\<forall>r \<in> set out. Net_Stock r = Global_stock r + Pending_PO r) \<and> validate out = Inr ())
   \<and> (\<forall>r m r1 r2. metrics_row r = Inr r1 \<longrightarrow>
          metrics_row (r\<lparr>Main_Store_Stock := m\<rparr>) = Inr r2 \<longrightarrow> Net_Stock r2 = Net_Stock r1)"
proof (intro conjI allI impI ballI)
  fix data out r
  assume c: "calculate_metrics data = Inr out" and "r \<in> set out"
  from calculate_metrics_source [OF this] obtain r0 where r0: "metrics_row r0 = Inr r"
    by blast
  show "Net_Stock r = Global_stock r + Pending_PO r"
    unfolding metrics_row_fields [OF r0] by (rule refl)
next
  fix data out
  assume "calculate_metrics data = Inr out"
  then show "validate out = Inr ()" by (rule validate_metrics)
next
  fix r :: po_merged and m r1 r2
  assume a: "metrics_row r = Inr r1" and b: "metrics_row (r\<lparr>Main_Store_Stock := m\<rparr>) = Inr r2"
  have "Global_stock (r\<lparr>Main_Store_Stock := m\<rparr>) = Global_stock r"
    "Pending_PO (r\<lparr>Main_Store_Stock := m\<rparr>) = Pending_PO r" by simp_all
  then show "Net_Stock r2 = Net_Stock r1"
    unfolding metrics_row_fields(10) [OF a] metrics_row_fields(10) [OF b] by (simp only:)
qed

theorem net_stock_identity_witness:
  "\<exists>out r. calculate_metrics
       [\<lparr>Item_Code = Some ''N1'', Current_SKU = True, ADC = 4,
         Min_Stock_Level = 100, Max_Stock_Level = 500, Pack_size = 30,
         Global_stock = 50, Main_Store_Stock = 25, Pending_PO = 30\<rparr>] = Inr out
     \<and> r \<in> set out \<and> Main_Store_Stock r = 25 \<and> Net_Stock r = 80 \<and> validate out = Inr ()"
proof -
  define row :: po_merged where "row = \<lparr>Item_Code = Some ''N1'', Current_SKU = True, ADC = 4,
         Min_Stock_Level = 100, Max_Stock_Level = 500, Pack_size = 30,
         Global_stock = 50, Main_Store_Stock = 25, Pending_PO = 30\<rparr>"
  obtain r where out: "calculate_metrics [row] = Inr [r]" and r: "metrics_row row = Inr r"
    using calculate_metrics_single by blast
  note f = metrics_row_fields [OF r]
  have mem: "r \<in> set [r]" by simp
  have sel: "Global_stock row = 50" "Pending_PO row = 30" "Main_Store_Stock row = 25"
    by (simp_all add: row_def)
  from net_stock_identity out mem
  have "Net_Stock r = Global_stock r + Pending_PO r" and v: "validate [r] = Inr ()"
    by blast+
  then have "Net_Stock r = 80" by (simp add: f sel)
  moreover have "Main_Store_Stock r = 25" by (simp add: f sel)
  ultimately show ?thesis using out mem v unfolding row_def by blast
qed

text \<open>
  Claim C4. After \<open>calculate_metrics\<close>, the reorder flag of every row is the conjunction of
  its active flag and of its net stock being below its minimum stock level.
\<close>

theorem reorder_flag_rule:
  assumes "calculate_metrics data = Inr out" and "r \<in> set out"
  shows "Reorder_Needed r = (Current_SKU r \<and> Net_Stock r < Min_Stock_Level r)"
proof -
  from calculate_metrics_source [OF assms] obtain r0 where r0: "metrics_row r0 = Inr r"
    by blast
  show ?thesis unfolding metrics_row_fields [OF r0] by (rule refl)
qed

theorem reorder_flag_rule_witness:
  "\<exists>out r. calculate_metrics
       [\<lparr>Item_Code = Some ''R1'', Current_SKU = True, ADC = 4,
         Min_Stock_Level = 100, Max_Stock_Level = 500, Pack_size = 30,
         Global_stock = 50, Main_Store_Stock = 25, Pending_PO = 30\<rparr>] = Inr out
     \<and> r \<in> set out \<and> Current_SKU r \<and> Net_Stock r = 80 \<and> Min_Stock_Level r = 100
     \<and> Reorder_Needed r"
proof -
  define row :: po_merged where "row = \<lparr>Item_Code = Some ''R1'', Current_SKU = True, ADC = 4,
         Min_Stock_Level = 100, Max_Stock_Level = 500, Pack_size = 30,
         Global_stock = 50, Main_Store_Stock = 25, Pending_PO = 30\<rparr>"
  obtain r where out: "calculate_metrics [row] = Inr [r]" and r: "metrics_row row = Inr r"
    using calculate_metrics_single by blast
  note f = metrics_row_fields [OF r]
  have mem: "r \<in> set [r]" by simp
  have sel: "Current_SKU row" "Global_stock row = 50" "Pending_PO row = 30"
    "Min_Stock_Level row = 100"
    by (simp_all add: row_def)
  have a: "Current_SKU r" "Net_Stock r = 80" "Min_Stock_Level r = 100"
    by (simp_all add: f sel)
  from reorder_flag_rule [OF out mem] a have "Reorder_Needed r" by simp
  with out mem a show ?thesis unfolding row_def by blast
qed



section \<open>Grouping: auxiliary facts\<close>

lemma add_qty_keys: "set (map fst (add_qty k q acc)) = insert k (set (map fst acc))"
  by (induction k q acc rule: add_qty.induct) (simp_all add: insert_commute)

lemma add_qty_distinct: "distinct (map fst acc) \<Longrightarrow> distinct (map fst (add_qty k q acc))"
proof (induction acc)
  case Nil
  show ?case by simp
next
  case (Cons a acc)
  obtain k' s where a: "a = (k', s)" by (cases a)
  from Cons have d: "k' \<notin> set (map fst acc)" "distinct (map fst (add_qty k q acc))"
    by (simp_all add: a)
  show ?case
  proof (cases "k = k'")
    case True
    with Cons.prems show ?thesis by (simp add: a)
  next
    case False
    with d have "k' \<notin> set (map fst (add_qty k q acc))"
      unfolding add_qty_keys by simp
    with d(2) False show ?thesis by (simp add: a)
  qed
qed

lemma add_qty_total: "total (add_qty k q acc) = total acc + q"
  by (induction acc) (auto simp: total_def)

lemma add_qty_map_of:
  "map_of (add_qty k q acc) = (map_of acc)(k \<mapsto> fillna0 (map_of acc k) + q)"
  by (induction acc) (auto simp: fillna0_def fun_eq_iff)

lemma group_rows_keys:
  "set (map fst (group_rows rs acc)) = set (map fst acc) \<union> {k. Some k \<in> set (map fst rs)}"
proof (induction rs acc rule: group_rows.induct)
  case (1 acc)
  show ?case by simp
next
  case (2 v rs acc)
  then show ?case by simp
next
  case (3 k v rs acc)
  have "{k'. Some k' \<in> set (map fst ((Some k, v) # rs))} = insert k {k'. Some k' \<in> set (map fst rs)}"
    by auto
  then show ?case unfolding group_rows.simps "3.IH" add_qty_keys by simp
qed

lemma group_rows_distinct:
  "distinct (map fst acc) \<Longrightarrow> distinct (map fst (group_rows rs acc))"
  by (induction rs acc rule: group_rows.induct) (simp_all add: add_qty_distinct)

lemma group_rows_total:
  "total (group_rows rs acc) =
     total acc + sum_list (map (\<lambda>r. fillna0 (snd r)) (filter (\<lambda>r. fst r \<noteq> None) rs))"
  by (induction rs acc rule: group_rows.induct) (simp_all add: add_qty_total)

lemma key_sum_simps:
  "key_sum [] k = 0"
  "key_sum ((None, v) # rs) k = key_sum rs k"
  "key_sum ((Some k', v) # rs) k = (if k' = k then fillna0 v + key_sum rs k else key_sum rs k)"
  by (simp_all add: key_sum_def)

lemma group_rows_map_of:
  "map_of (group_rows rs acc) k =
     (if k \<in> set (map fst acc) \<or> Some k \<in> set (map fst rs)
      then Some (fillna0 (map_of acc k) + key_sum rs k) else None)"
proof (induction rs acc rule: group_rows.induct)
  case (1 acc)
  show ?case
  proof (cases "map_of acc k")
    case None
    then show ?thesis by (simp add: key_sum_simps map_of_eq_None_iff)
  next
    case (Some s)
    then have "k \<in> set (map fst acc)" by (metis map_of_eq_None_iff option.distinct(1) set_map)
    with Some show ?thesis by (simp add: key_sum_simps fillna0_def)
  qed
next
  case (2 v rs acc)
  then show ?case by (simp add: key_sum_simps)
next
  case (3 k' v rs acc)
  show ?case
    unfolding group_rows.simps "3.IH" add_qty_keys add_qty_map_of
    by (auto simp: key_sum_simps fillna0_def)
qed


lemma groupby_sum_keys:
  "set (map fst (groupby_sum rows)) = {k. Some k \<in> set (map fst rows)}"
  unfolding groupby_sum_def using group_rows_keys [of rows "[]"] by simp

lemma groupby_sum_distinct: "distinct (map fst (groupby_sum rows))"
proof -
  have "distinct (map fst (group_rows rows []))" by (rule group_rows_distinct) simp
  moreover have "mset (map fst (sort_key fst (group_rows rows []))) = mset (map fst (group_rows rows []))"
    by simp
  ultimately show ?thesis unfolding groupby_sum_def by (metis mset_eq_imp_distinct_iff)
qed

lemma groupby_sum_sorted: "sorted (map fst (groupby_sum rows))"
  unfolding groupby_sum_def by (rule sorted_sort_key)


lemma sort_values_groupby: "sort_values (groupby_sum rows) = groupby_sum rows"
  unfolding sort_values_def using groupby_sum_sorted by (rule sort_key_id_if_sorted)

lemma total_sort_key: "total (sort_key fst tbl) = total tbl"
proof -
  have "sum_mset (mset (map snd (sort_key fst tbl))) = sum_mset (mset (map snd tbl))" by simp
  then show ?thesis unfolding total_def sum_mset_sum_list .
qed

lemma groupby_sum_total:
  "total (groupby_sum rows) =
     sum_list (map (\<lambda>r. fillna0 (snd r)) (filter (\<lambda>r. fst r \<noteq> None) rows))"
  unfolding groupby_sum_def total_sort_key group_rows_total by (simp add: total_def)

lemma groupby_sum_map_of:
  "map_of (groupby_sum rows) k =
     (if Some k \<in> set (map fst rows) then Some (key_sum rows k) else None)"
proof -
  have d: "distinct (map fst (group_rows rows []))" by (rule group_rows_distinct) simp
  have d': "distinct (map fst (groupby_sum rows))" by (rule groupby_sum_distinct)
  have "set (groupby_sum rows) = set (group_rows rows [])" unfolding groupby_sum_def by simp
  with d d' have "map_of (groupby_sum rows) = map_of (group_rows rows [])"
    by (simp add: map_of_inject_set)
  then show ?thesis unfolding group_rows_map_of by (simp add: fillna0_def)
qed


section \<open>Global stock lookup: auxiliary facts\<close>








lemma gs_aggregate_eq:
  "gs_aggregate cleaned = groupby_sum (map (\<lambda>r. (ItemCode r, Qty r)) cleaned)"
  unfolding gs_aggregate_def by (rule sort_values_groupby)

lemma create_global_stock_lookup_Inr:
  assumes "create_global_stock_lookup df = Inr out"
  shows "out = gs_aggregate (gs_clean df)" "gs_validate out = Inr out" "gs_clean df \<noteq> []"
proof -
  from assms have v: "gs_validate (gs_aggregate (gs_clean df)) = Inr out" and n: "gs_clean df \<noteq> []"
    unfolding create_global_stock_lookup_def Let_def by (auto split: if_splits)
  then show o: "out = gs_aggregate (gs_clean df)"
    unfolding gs_validate_def by (auto split: if_splits)
  from v o show "gs_validate out = Inr out" by simp
  from n show "gs_clean df \<noteq> []" .
qed



lemmas evaluate_global_stock =
  create_global_stock_lookup_def gs_clean_def gs_aggregate_def gs_validate_def
  groupby_sum_def sort_values_def qty_to_numeric_def strip_def astype_str_def is_space_def
  fillna0_def

lemma gs_aggregate_total:
  "total (gs_aggregate cleaned) =
     sum_list (map (\<lambda>r. fillna0 (Qty r)) (filter (\<lambda>r. ItemCode r \<noteq> None) cleaned))"
  unfolding gs_aggregate_eq groupby_sum_total
  by (induction cleaned) simp_all

lemma gs_aggregate_keys:
  "set (map fst (gs_aggregate cleaned)) = {k. \<exists>r \<in> set cleaned. ItemCode r = Some k}"
  unfolding gs_aggregate_eq groupby_sum_keys by (force simp: image_iff)

lemma gs_aggregate_distinct: "distinct (map fst (gs_aggregate cleaned))"
  unfolding gs_aggregate_eq by (rule groupby_sum_distinct)

lemma gs_validate_sentinel:
  "gs_validate (gs_aggregate cleaned) = Inl (AssertionError ''Intransit Store should be removed'')
     \<longleftrightarrow> (\<exists>r \<in> set cleaned. ItemCode r = Some ''Intransit Store'')"
proof -
  have k: "''Intransit Store'' \<in> set (map fst (gs_aggregate cleaned))
             \<longleftrightarrow> (\<exists>r \<in> set cleaned. ItemCode r = Some ''Intransit Store'')"
    unfolding gs_aggregate_keys by simp
  show ?thesis
  proof (cases "''Intransit Store'' \<in> set (map fst (gs_aggregate cleaned))")
    case True
    then have "gs_validate (gs_aggregate cleaned) =
        Inl (AssertionError ''Intransit Store should be removed'')"
      unfolding gs_validate_def by (simp only: if_True)
    with True k show ?thesis by blast
  next
    case False
    then have "gs_validate (gs_aggregate cleaned) \<noteq>
        Inl (AssertionError ''Intransit Store should be removed'')"
      unfolding gs_validate_def by (simp only: if_False) simp
    with False k show ?thesis by blast
  qed
qed

lemma gs_validate_not_duplicate:
  "gs_validate (gs_aggregate cleaned) \<noteq> Inl (AssertionError ''Duplicate item codes found'')"
  unfolding gs_validate_def using gs_aggregate_distinct [of cleaned] by simp

lemma gs_validate_Inr:
  assumes "gs_validate result = Inr out"
  shows "out = result" "''Intransit Store'' \<notin> set (map fst result)"
    "distinct (map fst result)" "list_all (\<lambda>q. 0 \<le> q) (map snd result)"
  using assms unfolding gs_validate_def by (auto split: if_splits)

section \<open>Claims about the global stock lookup\<close>



text \<open>
  Claim C6, as amended. Whenever \<open>create_global_stock_lookup\<close> returns a table, the table has
  no item code \<open>Intransit Store\<close>, its item codes are unique and its quantities are not
  negative. The assertions are guards that an input can trip: the uniqueness assertion never
  fails, but the first one fails exactly when a cleaned row carries the item code
  \<open>Intransit Store\<close>, and then no table is returned.
\<close>

theorem global_stock_postconditions:
  "(\<forall>df out. create_global_stock_lookup df = Inr out \<longrightarrow>
       ''Intransit Store'' \<notin> set (map fst out) \<and> distinct (map fst out)
       \<and> list_all (\<lambda>q. 0 \<le> q) (map snd out))
   \<and> (\<forall>cleaned. distinct (map fst (gs_aggregate cleaned)))
   \<and> (\<forall>cleaned. gs_validate (gs_aggregate cleaned) \<noteq>
         Inl (AssertionError ''Duplicate item codes found''))
   \<and> (\<forall>cleaned.
         gs_validate (gs_aggregate cleaned) =
           Inl (AssertionError ''Intransit Store should be removed'')
         \<longleftrightarrow> (\<exists>r \<in> set cleaned. ItemCode r = Some ''Intransit Store''))"
proof (intro conjI allI impI)
  fix df out
  assume a: "create_global_stock_lookup df = Inr out"
  note v = gs_validate_Inr [OF create_global_stock_lookup_Inr(2) [OF a]]
  show "''Intransit Store'' \<notin> set (map fst out)" by (rule v(2))
  show "distinct (map fst out)" by (rule v(3))
  show "list_all (\<lambda>q. 0 \<le> q) (map snd out)" by (rule v(4))
next
  fix cleaned
  show "distinct (map fst (gs_aggregate cleaned))" by (rule gs_aggregate_distinct)
  show "gs_validate (gs_aggregate cleaned) \<noteq> Inl (AssertionError ''Duplicate item codes found'')"
    by (rule gs_validate_not_duplicate)
  show "gs_validate (gs_aggregate cleaned) =
           Inl (AssertionError ''Intransit Store should be removed'')
         \<longleftrightarrow> (\<exists>r \<in> set cleaned. ItemCode r = Some ''Intransit Store'')"
    by (rule gs_validate_sentinel)
qed

theorem global_stock_postconditions_witness:
  "create_global_stock_lookup
     [\<lparr>ItemCode = Some ''Intransit Store'', Description = None, Qty = QtyNumber 9\<rparr>,
      \<lparr>ItemCode = Some ''B7'', Description = Some ''Gauze'', Qty = QtyNumber 4\<rparr>,
      \<lparr>ItemCode = Some ''A1'', Description = Some ''Widget'', Qty = QtyNumber 10\<rparr>,
      \<lparr>ItemCode = Some ''B7'', Description = Some ''Gauze'', Qty = QtyNumber (- 1)\<rparr>]
     = Inr [(''A1'', 10), (''B7'', 3)]
   \<and> ''Intransit Store'' \<notin> set (map fst [(''A1'', 10::real), (''B7'', 3)])
   \<and> distinct (map fst [(''A1'', 10::real), (''B7'', 3)])
   \<and> list_all (\<lambda>q. 0 \<le> q) (map snd [(''A1'', 10::real), (''B7'', 3)])"
proof -
  define df where "df =
     [\<lparr>ItemCode = Some ''Intransit Store'', Description = None, Qty = QtyNumber 9\<rparr>,
      \<lparr>ItemCode = Some ''B7'', Description = Some ''Gauze'', Qty = QtyNumber 4\<rparr>,
      \<lparr>ItemCode = Some ''A1'', Description = Some ''Widget'', Qty = QtyNumber 10\<rparr>,
      \<lparr>ItemCode = Some ''B7'', Description = Some ''Gauze'', Qty = QtyNumber (- 1)\<rparr>]"
  have e: "create_global_stock_lookup df = Inr [(''A1'', 10), (''B7'', 3)]"
    unfolding df_def by (simp add: evaluate_global_stock)
  from global_stock_postconditions e
  have "''Intransit Store'' \<notin> set (map fst [(''A1'', 10::real), (''B7'', 3)])
       \<and> distinct (map fst [(''A1'', 10::real), (''B7'', 3)])
       \<and> list_all (\<lambda>q. 0 \<le> q) (map snd [(''A1'', 10::real), (''B7'', 3)])"
    by blast
  with e show ?thesis unfolding df_def by blast
qed

text \<open>
  Against C6 as stated: a row coded \<open>Intransit Store\<close> that has a description and a quantity
  reaches the assertions and fails the first; a negative quantity fails the third.
\<close>

theorem global_stock_postconditions_counterexample:
  "create_global_stock_lookup
     [\<lparr>ItemCode = Some ''Intransit Store'', Description = Some ''Goods in transit'',
       Qty = QtyNumber 4\<rparr>]
     = Inl (AssertionError ''Intransit Store should be removed'')
   \<and> create_global_stock_lookup
     [\<lparr>ItemCode = Some ''A1'', Description = Some ''Widget'', Qty = QtyNumber (- 5)\<rparr>]
     = Inl (AssertionError ''Negative quantities found'')"
  by (simp add: evaluate_global_stock)

text \<open>
  Claim C10, as amended. The total of the table that the aggregation step builds is, in exact
  arithmetic, the sum of the quantities of the cleaned rows that carry an item code; a
  cleaned row whose item code is missing is in no group. When every cleaned row has an item
  code, the output total is the total of all cleaned rows.
\<close>

theorem global_stock_total:
  "(\<forall>cleaned. total (gs_aggregate cleaned) =
       sum_list (map (\<lambda>r. fillna0 (Qty r)) (filter (\<lambda>r. ItemCode r \<noteq> None) cleaned)))
   \<and> (\<forall>df out. create_global_stock_lookup df = Inr out \<longrightarrow>
         total out = sum_list (map (\<lambda>r. fillna0 (Qty r))
                       (filter (\<lambda>r. ItemCode r \<noteq> None) (gs_clean df))))
   \<and> (\<forall>df out. create_global_stock_lookup df = Inr out \<longrightarrow>
         list_all (\<lambda>r. ItemCode r \<noteq> None) (gs_clean df) \<longrightarrow>
         total out = sum_list (map (\<lambda>r. fillna0 (Qty r)) (gs_clean df)))"
proof (intro conjI allI impI)
  fix cleaned
  show "total (gs_aggregate cleaned) =
       sum_list (map (\<lambda>r. fillna0 (Qty r)) (filter (\<lambda>r. ItemCode r \<noteq> None) cleaned))"
    by (rule gs_aggregate_total)
next
  fix df out
  assume a: "create_global_stock_lookup df = Inr out"
  show "total out = sum_list (map (\<lambda>r. fillna0 (Qty r))
                       (filter (\<lambda>r. ItemCode r \<noteq> None) (gs_clean df)))"
    unfolding create_global_stock_lookup_Inr(1) [OF a] by (rule gs_aggregate_total)
next
  fix df out
  assume a: "create_global_stock_lookup df = Inr out"
    and b: "list_all (\<lambda>r. ItemCode r \<noteq> None) (gs_clean df)"
  from b have "filter (\<lambda>r. ItemCode r \<noteq> None) (gs_clean df) = gs_clean df"
    by (simp add: list_all_iff)
  then show "total out = sum_list (map (\<lambda>r. fillna0 (Qty r)) (gs_clean df))"
    unfolding create_global_stock_lookup_Inr(1) [OF a] gs_aggregate_total by simp
qed

theorem global_stock_total_witness:
  "create_global_stock_lookup
     [\<lparr>ItemCode = Some ''B7'', Description = Some ''Gauze'', Qty = QtyNumber 4\<rparr>,
      \<lparr>ItemCode = Some ''A1'', Description = Some ''Widget'', Qty = QtyNumber 10\<rparr>,
      \<lparr>ItemCode = Some ''A9'', Description = Some ''Tape'', Qty = QtyMissing\<rparr>,
      \<lparr>ItemCode = Some ''A1'', Description = Some ''Widget'', Qty = QtyNumber 6\<rparr>]
     = Inr [(''A1'', 16), (''B7'', 4)]
   \<and> total [(''A1'', 16), (''B7'', 4)] = 20
   \<and> sum_list (map (\<lambda>r. fillna0 (Qty r)) (gs_clean
     [\<lparr>ItemCode = Some ''B7'', Description = Some ''Gauze'', Qty = QtyNumber 4\<rparr>,
      \<lparr>ItemCode = Some ''A1'', Description = Some ''Widget'', Qty = QtyNumber 10\<rparr>,
      \<lparr>ItemCode = Some ''A9'', Description = Some ''Tape'', Qty = QtyMissing\<rparr>,
      \<lparr>ItemCode = Some ''A1'', Description = Some ''Widget'', Qty = QtyNumber 6\<rparr>])) = 20"
proof -
  define df where "df =
     [\<lparr>ItemCode = Some ''B7'', Description = Some ''Gauze'', Qty = QtyNumber 4\<rparr>,
      \<lparr>ItemCode = Some ''A1'', Description = Some ''Widget'', Qty = QtyNumber 10\<rparr>,
      \<lparr>ItemCode = Some ''A9'', Description = Some ''Tape'', Qty = QtyMissing\<rparr>,
      \<lparr>ItemCode = Some ''A1'', Description = Some ''Widget'', Qty = QtyNumber 6\<rparr>]"
  have e: "create_global_stock_lookup df = Inr [(''A1'', 16), (''B7'', 4)]"
    unfolding df_def by (simp add: evaluate_global_stock)
  have c: "list_all (\<lambda>r. ItemCode r \<noteq> None) (gs_clean df)"
    unfolding df_def by (simp add: evaluate_global_stock)
  from global_stock_total e c
  have t: "total [(''A1'', 16), (''B7'', 4)] = sum_list (map (\<lambda>r. fillna0 (Qty r)) (gs_clean df))"
    by blast
  have "total [(''A1'', 16), (''B7'', 4)] = 20" by (simp add: total_def)
  with t e show ?thesis unfolding df_def by simp
qed

text \<open>
  Against C10 as stated: a row with a description and a quantity but no item code survives
  the three filters, and its quantity is missing from the output.
\<close>

theorem global_stock_total_counterexample:
  "create_global_stock_lookup
     [\<lparr>ItemCode = None, Description = Some ''Widget'', Qty = QtyNumber 5\<rparr>,
      \<lparr>ItemCode = Some ''A1'', Description = Some ''Widget'', Qty = QtyNumber 10\<rparr>]
     = Inr [(''A1'', 10)]
   \<and> total [(''A1'', 10)] = 10
   \<and> sum_list (map (\<lambda>r. fillna0 (Qty r)) (gs_clean
     [\<lparr>ItemCode = None, Description = Some ''Widget'', Qty = QtyNumber 5\<rparr>,
      \<lparr>ItemCode = Some ''A1'', Description = Some ''Widget'', Qty = QtyNumber 10\<rparr>])) = 15"
  by (simp add: evaluate_global_stock total_def)

section \<open>Main store lookup: auxiliary facts\<close>















section \<open>Claims about the main store lookup\<close>



section \<open>Pending purchase orders: auxiliary facts\<close>

lemma po_filter_eq: "po_filter now expected = map po_to_datetime (filter (po_selected now) expected)"
proof -
  have s: "PO_Store_Name (po_to_datetime e) = PO_Store_Name e"
    and d: "POCreated_Date (po_to_datetime e) = to_datetime (POCreated_Date e)" for e
    by (simp_all add: po_to_datetime_def)
  have g: "date_ge (to_datetime c) t \<longleftrightarrow> (case c of DateValue t' \<Rightarrow> t \<le> t' | _ \<Rightarrow> False)" for c t
    by (cases c) (simp_all add: date_ge_def)
  show ?thesis
    unfolding po_filter_def Let_def filter_map o_def s d g filter_filter po_selected_def MAIN_STORE_def
    by (rule arg_cong [where f = "map po_to_datetime"], rule filter_cong) auto
qed

lemma po_selected_iff:
  "po_selected now e \<longleftrightarrow>
     PO_Store_Name e = ''Main Medical Store (MMS)-SEPL'' \<and>
     (\<exists>t. POCreated_Date e = DateValue t \<and> now - timedelta_days 90 \<le> t)"
  unfolding po_selected_def MAIN_STORE_def by (cases "POCreated_Date e") simp_all

lemma po_column:
  "map (\<lambda>e. (PO_Item_Code e, Pen_Qty e)) (po_filter now expected) =
     map (\<lambda>e. (PO_Item_Code e, Pen_Qty e)) (filter (po_selected now) expected)"
  unfolding po_filter_eq by (simp add: o_def po_to_datetime_def)

lemma key_sum_po:
  "key_sum (map (\<lambda>e. (PO_Item_Code e, Pen_Qty e)) (filter (po_selected now) expected)) k =
     spec_pending_po now expected (Some k)"
  unfolding key_sum_def spec_pending_po_def
  by (induction expected) simp_all

lemma key_sum_absent: "Some k \<notin> set (map fst rows) \<Longrightarrow> key_sum rows k = 0"
  unfolding key_sum_def by (induction rows) auto

lemma pending_lookup:
  "fillna0 (map_of (groupby_sum rows) k) = key_sum rows k"
  unfolding groupby_sum_map_of by (simp add: fillna0_def key_sum_absent)

lemma filter_pending:
  assumes "distinct (map fst pending)"
  shows "filter (\<lambda>m. fst m = code) (map (\<lambda>(k, q). (Some k, Some q)) pending) =
     (case code of
        None \<Rightarrow> []
      | Some k \<Rightarrow> (case map_of pending k of None \<Rightarrow> [] | Some q \<Rightarrow> [(Some k, Some q)]))"
  using assms
proof (induction pending)
  case Nil
  show ?case by (simp split: option.splits)
next
  case (Cons a pending)
  obtain k' q' where a: "a = (k', q')" by (cases a)
  from Cons.prems have n: "k' \<notin> set (map fst pending)" and d: "distinct (map fst pending)"
    by (simp_all add: a)
  from n have m: "map_of pending k' = None" by (simp add: map_of_eq_None_iff)
  note ih = Cons.IH [OF d]
  show ?case
  proof (cases code)
    case None
    with ih show ?thesis by (simp add: a)
  next
    case (Some k)
    with ih m show ?thesis by (auto simp: a)
  qed
qed

lemma merge_left_pending:
  assumes "distinct (map fst pending)"
  shows "merge_left key_of join left (map (\<lambda>(k, q). (Some k, Some q)) pending) =
     map (\<lambda>l. join l (case key_of l of None \<Rightarrow> None | Some k \<Rightarrow> map_of pending k)) left"
proof -
  have "(case filter (\<lambda>m. fst m = key_of l) (map (\<lambda>(k, q). (Some k, Some q)) pending) of
           [] \<Rightarrow> [join l None]
         | m # ms \<Rightarrow> map (\<lambda>m. join l (snd m)) (m # ms))
        = [join l (case key_of l of None \<Rightarrow> None | Some k \<Rightarrow> map_of pending k)]" for l
    unfolding filter_pending [OF assms] by (simp split: option.splits)
  then show ?thesis unfolding merge_left_def by simp
qed

lemma process_pending_po_eq:
  "process_pending_po now data expected =
     map (\<lambda>l. main_merged.extend l (po_merged.fields (spec_pending_po now expected (Item_Code l)))) data"
proof -
  let ?rows = "map (\<lambda>e. (PO_Item_Code e, Pen_Qty e)) (filter (po_selected now) expected)"
  have v: "fillna0 (case code of None \<Rightarrow> None | Some k \<Rightarrow> map_of (groupby_sum ?rows) k)
             = spec_pending_po now expected code" for code
  proof (cases code)
    case None
    then show ?thesis by (simp add: fillna0_def spec_pending_po_def)
  next
    case (Some k)
    then show ?thesis by (simp add: pending_lookup key_sum_po)
  qed
  show ?thesis
    unfolding process_pending_po_def Let_def po_column
      merge_left_pending [OF groupby_sum_distinct] v
    by (rule refl)
qed

lemma po_extend_fields:
  "Pending_PO (main_merged.extend l (po_merged.fields v)) = v"
  "Item_Code (main_merged.extend l (po_merged.fields v)) = Item_Code l"
  "Current_SKU (main_merged.extend l (po_merged.fields v)) = Current_SKU l"
  "Global_stock (main_merged.extend l (po_merged.fields v)) = Global_stock l"
  "Main_Store_Stock (main_merged.extend l (po_merged.fields v)) = Main_Store_Stock l"
  by (simp_all add: main_merged.defs po_merged.defs)

lemma po_extend_truncate:
  fixes l :: main_merged
  shows "main_merged.truncate (main_merged.extend l (po_merged.fields v)) = l"
  by (simp add: main_merged.defs po_merged.defs)

section \<open>The active flag through the stages: auxiliary facts\<close>

lemma merge_left_invariant:
  assumes "\<And>l v. P l \<Longrightarrow> Q (join l v)" and "\<forall>l \<in> set left. P l"
  shows "\<forall>r \<in> set (merge_left key_of join left right). Q r"
proof
  fix r
  assume "r \<in> set (merge_left key_of join left right)"
  then obtain l where l: "l \<in> set left"
    and r: "r \<in> set (case filter (\<lambda>m. fst m = key_of l) right of
                         [] \<Rightarrow> [join l None]
                       | m # ms \<Rightarrow> map (\<lambda>m. join l (snd m)) (m # ms))"
    unfolding merge_left_def by auto
  from r obtain v where "r = join l v" by (auto split: list.splits)
  with assms l show "Q r" by blast
qed

lemma global_extend_sku:
  "Current_SKU (master_item.extend l (global_merged.fields v)) = Current_SKU l"
  by (simp add: master_item.defs global_merged.defs)

lemma main_extend_sku:
  "Current_SKU (global_merged.extend l (main_merged.fields v)) = Current_SKU l"
  by (simp add: global_merged.defs main_merged.defs)

lemma load_master_active: "\<forall>r \<in> set (load_master master). Current_SKU r"
  unfolding load_master_def by simp

lemma merge_global_stock_active:
  assumes "\<forall>r \<in> set data. Current_SKU r"
  shows "\<forall>r \<in> set (merge_global_stock data gs). Current_SKU r"
  unfolding merge_global_stock_def
  by (rule merge_left_invariant [where P = Current_SKU, OF _ assms])
     (simp only: global_extend_sku)

lemma merge_main_store_stock_active:
  assumes "\<forall>r \<in> set data. Current_SKU r"
  shows "\<forall>r \<in> set (merge_main_store_stock data ms). Current_SKU r"
  unfolding merge_main_store_stock_def
  by (rule merge_left_invariant [where P = Current_SKU, OF _ assms])
     (simp only: main_extend_sku)

lemma process_pending_po_active:
  assumes "\<forall>r \<in> set data. Current_SKU r"
  shows "\<forall>r \<in> set (process_pending_po now data expected). Current_SKU r"
  unfolding process_pending_po_eq using assms by (simp add: po_extend_fields)

lemma merged_table_active:
  "\<forall>r \<in> set (merged_table now master gs ms expected). Current_SKU r"
  unfolding merged_table_def
  by (intro process_pending_po_active merge_main_store_stock_active
        merge_global_stock_active load_master_active)

lemma calculate_metrics_active:
  assumes "\<forall>r \<in> set data. Current_SKU r" and "calculate_metrics data = Inr out"
  shows "\<forall>r \<in> set out. Current_SKU r"
proof
  fix r
  assume "r \<in> set out"
  from calculate_metrics_source [OF assms(2) this] obtain r0
    where r0: "r0 \<in> set data" "metrics_row r0 = Inr r" by blast
  from assms(1) r0(1) have "Current_SKU r0" by blast
  then show "Current_SKU r" unfolding metrics_row_fields(2) [OF r0(2)] .
qed

lemma run_Inr:
  assumes "run now master gs ms expected = Inr out"
  shows "calculate_metrics (merged_table now master gs ms expected) = Inr out"
  using assms unfolding run_def by (auto split: sum.splits)

lemma run_total: "\<exists>out. run now master gs ms expected = Inr out"
proof -
  obtain out where o: "calculate_metrics (merged_table now master gs ms expected) = Inr out"
    using calculate_metrics_rows by blast
  from validate_metrics [OF o] have "validate out = Inr ()" .
  with o have "run now master gs ms expected = Inr out" unfolding run_def by simp
  then show ?thesis by blast
qed

lemma export_rows_set: "set (export_rows data) = set data"
  unfolding export_rows_def by simp

lemma merged_table_example:
  "merged_table (timedelta_days 1000)
     [\<lparr>Item_Code = Some ''A1'', Current_SKU = True, ADC = 4, Min_Stock_Level = 100,
       Max_Stock_Level = 500, Pack_size = 30\<rparr>,
      \<lparr>Item_Code = Some ''Z9'', Current_SKU = False, ADC = 1, Min_Stock_Level = 10,
       Max_Stock_Level = 20, Pack_size = 5\<rparr>]
     [(Some ''A1'', Some 50), (Some ''Z9'', Some 1)] [(Some ''A1'', Some 25)] []
   = [\<lparr>Item_Code = Some ''A1'', Current_SKU = True, ADC = 4, Min_Stock_Level = 100,
       Max_Stock_Level = 500, Pack_size = 30, Global_stock = 50, Main_Store_Stock = 25,
       Pending_PO = 0\<rparr>]"
  unfolding merged_table_def process_pending_po_eq
  by (simp add: load_master_def merge_global_stock_def merge_main_store_stock_def
      merge_left_def fillna0_def spec_pending_po_def
      master_item.defs global_merged.defs main_merged.defs po_merged.defs)

section \<open>Claims about the merge stages\<close>

text \<open>
  Claim C7. \<open>process_pending_po\<close> keeps every row of the table, once and in order, and gives
  it as pending PO quantity the sum of the pending quantities of exactly those PO lines that
  bear its item code, are of the designated store and have a creation date that parses and is
  at or after the run time minus 90 days; a row with no such line gets 0. A line whose date
  is missing or does not parse is left out, and so is a line of the designated store dated 95
  days before the run time.
\<close>

theorem pending_po_window:
  "(\<forall>now data expected.
      map main_merged.truncate (process_pending_po now data expected) = data
      \<and> map Pending_PO (process_pending_po now data expected) =
          map (\<lambda>l. spec_pending_po now expected (Item_Code l)) data)
   \<and> (\<forall>now expected. po_filter now expected = map po_to_datetime (filter (po_selected now) expected))
   \<and> (\<forall>now e. po_selected now e \<longleftrightarrow>
          PO_Store_Name e = ''Main Medical Store (MMS)-SEPL'' \<and>
          (\<exists>t. POCreated_Date e = DateValue t \<and> now - timedelta_days 90 \<le> t))
   \<and> (\<forall>now e. POCreated_Date e = DateMissing \<or> (\<exists>s. POCreated_Date e = DateText s) \<longrightarrow>
          \<not> po_selected now e)
   \<and> (\<forall>now e. PO_Store_Name e = ''Main Medical Store (MMS)-SEPL'' \<and>
          POCreated_Date e = DateValue (now - timedelta_days 95) \<longrightarrow> \<not> po_selected now e)
   \<and> (\<forall>now expected k.
          (\<forall>e \<in> set expected. PO_Item_Code e = Some k \<longrightarrow> \<not> po_selected now e) \<longrightarrow>
          spec_pending_po now expected (Some k) = 0)"
proof (intro conjI allI impI)
  fix now expected and data :: "main_merged list"
  show "map main_merged.truncate (process_pending_po now data expected) = data"
    unfolding process_pending_po_eq by (simp add: o_def po_extend_truncate)
  show "map Pending_PO (process_pending_po now data expected) =
          map (\<lambda>l. spec_pending_po now expected (Item_Code l)) data"
    unfolding process_pending_po_eq by (simp add: o_def po_extend_fields)
next
  fix now expected
  show "po_filter now expected = map po_to_datetime (filter (po_selected now) expected)"
    by (rule po_filter_eq)
next
  fix now and e :: "date_cell pending_po_record"
  show "po_selected now e \<longleftrightarrow>
          PO_Store_Name e = ''Main Medical Store (MMS)-SEPL'' \<and>
          (\<exists>t. POCreated_Date e = DateValue t \<and> now - timedelta_days 90 \<le> t)"
    by (rule po_selected_iff)
next
  fix now and e :: "date_cell pending_po_record"
  assume "POCreated_Date e = DateMissing \<or> (\<exists>s. POCreated_Date e = DateText s)"
  then show "\<not> po_selected now e" unfolding po_selected_iff by auto
next
  fix now and e :: "date_cell pending_po_record"
  assume "PO_Store_Name e = ''Main Medical Store (MMS)-SEPL'' \<and>
          POCreated_Date e = DateValue (now - timedelta_days 95)"
  then show "\<not> po_selected now e"
    unfolding po_selected_iff by (auto simp: timedelta_days_def)
next
  fix now k and expected :: "date_cell pending_po_record list"
  assume "\<forall>e \<in> set expected. PO_Item_Code e = Some k \<longrightarrow> \<not> po_selected now e"
  then have "filter (\<lambda>e. po_selected now e \<and> PO_Item_Code e = Some k) expected = []"
    by (auto simp: filter_empty_conv)
  then show "spec_pending_po now expected (Some k) = 0"
    unfolding spec_pending_po_def by simp
qed

theorem pending_po_window_witness:
  "map Pending_PO (process_pending_po (timedelta_days 1000)
     [\<lparr>Item_Code = Some ''A1'', Current_SKU = True, ADC = 4, Min_Stock_Level = 100,
       Max_Stock_Level = 500, Pack_size = 30, Global_stock = 50, Main_Store_Stock = 25\<rparr>,
      \<lparr>Item_Code = Some ''B2'', Current_SKU = True, ADC = 1, Min_Stock_Level = 10,
       Max_Stock_Level = 20, Pack_size = 5, Global_stock = 0, Main_Store_Stock = 0\<rparr>]
     [\<lparr>PO_Item_Code = Some ''A1'', PO_Store_Name = ''Main Medical Store (MMS)-SEPL'',
       POCreated_Date = DateValue (timedelta_days 950), Pen_Qty = Some 12\<rparr>,
      \<lparr>PO_Item_Code = Some ''A1'', PO_Store_Name = ''Main Medical Store (MMS)-SEPL'',
       POCreated_Date = DateValue (timedelta_days 1000 - timedelta_days 95), Pen_Qty = Some 40\<rparr>,
      \<lparr>PO_Item_Code = Some ''A1'', PO_Store_Name = ''Ward 3 Sub Store'',
       POCreated_Date = DateValue (timedelta_days 990), Pen_Qty = Some 7\<rparr>,
      \<lparr>PO_Item_Code = Some ''A1'', PO_Store_Name = ''Main Medical Store (MMS)-SEPL'',
       POCreated_Date = DateText ''pending'', Pen_Qty = Some 3\<rparr>,
      \<lparr>PO_Item_Code = Some ''A1'', PO_Store_Name = ''Main Medical Store (MMS)-SEPL'',
       POCreated_Date = DateValue (timedelta_days 910), Pen_Qty = Some 5\<rparr>,
      \<lparr>PO_Item_Code = Some ''B2'', PO_Store_Name = ''Main Medical Store (MMS)-SEPL'',
       POCreated_Date = DateMissing, Pen_Qty = Some 9\<rparr>]) = [17, 0]
   \<and> \<not> po_selected (timedelta_days 1000)
       \<lparr>PO_Item_Code = Some ''A1'', PO_Store_Name = ''Main Medical Store (MMS)-SEPL'',
        POCreated_Date = DateValue (timedelta_days 1000 - timedelta_days 95), Pen_Qty = Some 40\<rparr>
   \<and> \<not> po_selected (timedelta_days 1000)
       \<lparr>PO_Item_Code = Some ''A1'', PO_Store_Name = ''Main Medical Store (MMS)-SEPL'',
        POCreated_Date = DateText ''pending'', Pen_Qty = Some 3\<rparr>"
proof -
  define e95 :: "date_cell pending_po_record" where "e95 =
      \<lparr>PO_Item_Code = Some ''A1'', PO_Store_Name = ''Main Medical Store (MMS)-SEPL'',
       POCreated_Date = DateValue (timedelta_days 1000 - timedelta_days 95), Pen_Qty = Some 40\<rparr>"
  define etext :: "date_cell pending_po_record" where "etext =
      \<lparr>PO_Item_Code = Some ''A1'', PO_Store_Name = ''Main Medical Store (MMS)-SEPL'',
       POCreated_Date = DateText ''pending'', Pen_Qty = Some 3\<rparr>"
  have h95: "PO_Store_Name e95 = ''Main Medical Store (MMS)-SEPL'' \<and>
          POCreated_Date e95 = DateValue (timedelta_days 1000 - timedelta_days 95)"
    by (simp add: e95_def)
  have htext: "POCreated_Date etext = DateMissing \<or> (\<exists>s. POCreated_Date etext = DateText s)"
    by (simp add: etext_def)
  from pending_po_window h95 have n95: "\<not> po_selected (timedelta_days 1000) e95" by blast
  from pending_po_window htext have ntext: "\<not> po_selected (timedelta_days 1000) etext" by blast
  have "map Pending_PO (process_pending_po (timedelta_days 1000)
     [\<lparr>Item_Code = Some ''A1'', Current_SKU = True, ADC = 4, Min_Stock_Level = 100,
       Max_Stock_Level = 500, Pack_size = 30, Global_stock = 50, Main_Store_Stock = 25\<rparr>,
      \<lparr>Item_Code = Some ''B2'', Current_SKU = True, ADC = 1, Min_Stock_Level = 10,
       Max_Stock_Level = 20, Pack_size = 5, Global_stock = 0, Main_Store_Stock = 0\<rparr>]
     [\<lparr>PO_Item_Code = Some ''A1'', PO_Store_Name = ''Main Medical Store (MMS)-SEPL'',
       POCreated_Date = DateValue (timedelta_days 950), Pen_Qty = Some 12\<rparr>,
      e95,
      \<lparr>PO_Item_Code = Some ''A1'', PO_Store_Name = ''Ward 3 Sub Store'',
       POCreated_Date = DateValue (timedelta_days 990), Pen_Qty = Some 7\<rparr>,
      etext,
      \<lparr>PO_Item_Code = Some ''A1'', PO_Store_Name = ''Main Medical Store (MMS)-SEPL'',
       POCreated_Date = DateValue (timedelta_days 910), Pen_Qty = Some 5\<rparr>,
      \<lparr>PO_Item_Code = Some ''B2'', PO_Store_Name = ''Main Medical Store (MMS)-SEPL'',
       POCreated_Date = DateMissing, Pen_Qty = Some 9\<rparr>]) = [17, 0]"
    unfolding pending_po_window [THEN conjunct1, rule_format, THEN conjunct2]
    using n95 ntext
    by (simp add: spec_pending_po_def po_selected_def MAIN_STORE_def timedelta_days_def fillna0_def
        e95_def etext_def)
  with n95 ntext show ?thesis unfolding e95_def etext_def by blast
qed

text \<open>
  Claim C9. Every row that \<open>load_master\<close> keeps is active; each later stage (the three
  merges and the metrics) keeps the rows active, so every row that reaches
  \<open>calculate_metrics\<close>, every row that \<open>run\<close> returns and every row that is exported is
  active. For the rows of a run the active-flag tests are therefore always passed: the
  reorder flag is just the net stock being below the minimum, and the order quantity rule
  starts at the reorder flag.
\<close>

theorem active_rows_only:
  "(\<forall>master. \<forall>r \<in> set (load_master master). Current_SKU r)
   \<and> (\<forall>data gs. (\<forall>r \<in> set data. Current_SKU r) \<longrightarrow>
          (\<forall>r \<in> set (merge_global_stock data gs). Current_SKU r))
   \<and> (\<forall>data ms. (\<forall>r \<in> set data. Current_SKU r) \<longrightarrow>
          (\<forall>r \<in> set (merge_main_store_stock data ms). Current_SKU r))
   \<and> (\<forall>now data expected. (\<forall>r \<in> set data. Current_SKU r) \<longrightarrow>
          (\<forall>r \<in> set (process_pending_po now data expected). Current_SKU r))
   \<and> (\<forall>now master gs ms expected.
          \<forall>r \<in> set (merged_table now master gs ms expected). Current_SKU r)
   \<and> (\<forall>now master gs ms expected out. run now master gs ms expected = Inr out \<longrightarrow>
          set (export_rows out) = set out
          \<and> (\<forall>r \<in> set out.
                Current_SKU r
                \<and> Reorder_Needed r = (Net_Stock r < Min_Stock_Level r)
                \<and> Order_Qty r =
                    (if \<not> Reorder_Needed r then 0
                     else if Pack_size r \<le> 0 \<or> Max_Stock_Level r - Net_Stock r \<le> 0 then 0
                     else of_int \<lceil>(Max_Stock_Level r - Net_Stock r) / Pack_size r\<rceil>
                            * Pack_size r)))"
proof (intro conjI allI impI)
  fix master
  show "\<forall>r \<in> set (load_master master). Current_SKU r" by (rule load_master_active)
next
  fix data :: "master_item list" and gs
  assume "\<forall>r \<in> set data. Current_SKU r"
  then show "\<forall>r \<in> set (merge_global_stock data gs). Current_SKU r"
    by (rule merge_global_stock_active)
next
  fix data :: "global_merged list" and ms
  assume "\<forall>r \<in> set data. Current_SKU r"
  then show "\<forall>r \<in> set (merge_main_store_stock data ms). Current_SKU r"
    by (rule merge_main_store_stock_active)
next
  fix now expected and data :: "main_merged list"
  assume "\<forall>r \<in> set data. Current_SKU r"
  then show "\<forall>r \<in> set (process_pending_po now data expected). Current_SKU r"
    by (rule process_pending_po_active)
next
  fix now master gs ms expected
  show "\<forall>r \<in> set (merged_table now master gs ms expected). Current_SKU r"
    by (rule merged_table_active)
next
  fix now master gs ms expected out
  assume "run now master gs ms expected = Inr out"
  then show "set (export_rows out) = set out" by (simp only: export_rows_set)
next
  fix now master gs ms expected out
  assume a: "run now master gs ms expected = Inr out"
  note c = run_Inr [OF a]
  show "\<forall>r \<in> set out.
                Current_SKU r
                \<and> Reorder_Needed r = (Net_Stock r < Min_Stock_Level r)
                \<and> Order_Qty r =
                    (if \<not> Reorder_Needed r then 0
                     else if Pack_size r \<le> 0 \<or> Max_Stock_Level r - Net_Stock r \<le> 0 then 0
                     else of_int \<lceil>(Max_Stock_Level r - Net_Stock r) / Pack_size r\<rceil>
                            * Pack_size r)"
  proof (intro ballI conjI)
    fix r
    assume r: "r \<in> set out"
    from calculate_metrics_active [OF merged_table_active c] r
    show s: "Current_SKU r" by blast
    from calculate_metrics_source [OF c r] obtain r0 where r0: "metrics_row r0 = Inr r"
      by blast
    note f = metrics_row_fields [OF r0]
    from s have s0: "Current_SKU r0" unfolding f .
    show "Reorder_Needed r = (Net_Stock r < Min_Stock_Level r)"
      unfolding f using s0 by simp
    show "Order_Qty r =
                    (if \<not> Reorder_Needed r then 0
                     else if Pack_size r \<le> 0 \<or> Max_Stock_Level r - Net_Stock r \<le> 0 then 0
                     else of_int \<lceil>(Max_Stock_Level r - Net_Stock r) / Pack_size r\<rceil>
                            * Pack_size r)"
      unfolding f order_formula_def using s0 by simp
  qed
qed

theorem active_rows_only_witness:
  "\<exists>r. run (timedelta_days 1000)
     [\<lparr>Item_Code = Some ''A1'', Current_SKU = True, ADC = 4, Min_Stock_Level = 100,
       Max_Stock_Level = 500, Pack_size = 30\<rparr>,
      \<lparr>Item_Code = Some ''Z9'', Current_SKU = False, ADC = 1, Min_Stock_Level = 10,
       Max_Stock_Level = 20, Pack_size = 5\<rparr>]
     [(Some ''A1'', Some 50), (Some ''Z9'', Some 1)] [(Some ''A1'', Some 25)] [] = Inr [r]
   \<and> Item_Code r = Some ''A1'' \<and> Current_SKU r \<and> Net_Stock r = 50 \<and> Reorder_Needed r
   \<and> Order_Qty r = 450"
proof -
  define row :: po_merged where "row =
      \<lparr>Item_Code = Some ''A1'', Current_SKU = True, ADC = 4, Min_Stock_Level = 100,
       Max_Stock_Level = 500, Pack_size = 30, Global_stock = 50, Main_Store_Stock = 25,
       Pending_PO = 0\<rparr>"
  obtain r where c: "calculate_metrics [row] = Inr [r]" and m: "metrics_row row = Inr r"
    using calculate_metrics_single by blast
  note f = metrics_row_fields [OF m]
  have v: "validate [r] = Inr ()" using c by (rule validate_metrics)
  have run: "run (timedelta_days 1000)
     [\<lparr>Item_Code = Some ''A1'', Current_SKU = True, ADC = 4, Min_Stock_Level = 100,
       Max_Stock_Level = 500, Pack_size = 30\<rparr>,
      \<lparr>Item_Code = Some ''Z9'', Current_SKU = False, ADC = 1, Min_Stock_Level = 10,
       Max_Stock_Level = 20, Pack_size = 5\<rparr>]
     [(Some ''A1'', Some 50), (Some ''Z9'', Some 1)] [(Some ''A1'', Some 25)] [] = Inr [r]"
    unfolding run_def merged_table_example row_def [symmetric] c
    by (simp only: sum.case v)
  have mem: "r \<in> set [r]" by simp
  from active_rows_only run mem
  have a: "Current_SKU r" "Reorder_Needed r = (Net_Stock r < Min_Stock_Level r)"
    "Order_Qty r =
       (if \<not> Reorder_Needed r then 0
        else if Pack_size r \<le> 0 \<or> Max_Stock_Level r - Net_Stock r \<le> 0 then 0
        else of_int \<lceil>(Max_Stock_Level r - Net_Stock r) / Pack_size r\<rceil> * Pack_size r)"
    by blast+
  have sel: "Item_Code row = Some ''A1''" "Global_stock row = 50" "Pending_PO row = 0"
    "Min_Stock_Level row = 100" "Max_Stock_Level row = 500" "Pack_size row = 30"
    by (simp_all add: row_def)
  have b: "Item_Code r = Some ''A1''" "Net_Stock r = 50" "Min_Stock_Level r = 100"
    "Max_Stock_Level r = 500" "Pack_size r = 30"
    by (simp_all add: f sel)
  from a(2) b have re: "Reorder_Needed r" by simp
  from a(3) re b have "Order_Qty r = 450" by simp
  with run a(1) b re show ?thesis by blast
qed

end
